theory Spec2Isabelle
  imports Main "HOL-Library.Word"
begin

section \<open>Go runtime: panics and strings\<close>

text \<open>
  A Go string is a sequence of bytes; \<open>string\<close> (a list of \<open>char\<close>, one per byte) models it.
  A run-time panic is a value: a computation that may panic returns \<open>go_panic + 'a\<close>.
\<close>

datatype go_panic =
    SliceBoundsOutOfRange nat nat
  | IndexOutOfRange nat nat

text \<open>\<open>s[:n]\<close> on a string: legal only for \<open>n \<le> len(s)\<close>, a run-time panic otherwise.\<close>

definition slice_to :: "string \<Rightarrow> nat \<Rightarrow> go_panic + string" where
  "slice_to s n = (if n \<le> length s then Inr (take n s) else Inl (SliceBoundsOutOfRange n (length s)))"

text \<open>\<open>xs[i]\<close> on a slice: a run-time panic when \<open>i\<close> is out of range.\<close>

definition index_at :: "'a list \<Rightarrow> nat \<Rightarrow> go_panic + 'a" where
  "index_at xs i = (if i < length xs then Inr (xs ! i) else Inl (IndexOutOfRange i (length xs)))"

definition isDigitChar :: "char \<Rightarrow> bool" where
  "isDigitChar c = (let n = (of_char c :: nat) in 48 \<le> n \<and> n \<le> 57)"

definition isUpperChar :: "char \<Rightarrow> bool" where
  "isUpperChar c = (let n = (of_char c :: nat) in 65 \<le> n \<and> n \<le> 90)"

definition isLowerChar :: "char \<Rightarrow> bool" where
  "isLowerChar c = (let n = (of_char c :: nat) in 97 \<le> n \<and> n \<le> 122)"

text \<open>The class \<open>\w\<close> of Go's regexp: ASCII letters, digits and the underscore.\<close>

definition isWordChar :: "char \<Rightarrow> bool" where
  "isWordChar c = (isDigitChar c \<or> isUpperChar c \<or> isLowerChar c \<or> c = CHR ''_'')"

text \<open>The class \<open>[a-fA-F0-9]\<close>.\<close>

definition isHexChar :: "char \<Rightarrow> bool" where
  "isHexChar c = (let n = (of_char c :: nat) in
     (97 \<le> n \<and> n \<le> 102) \<or> (65 \<le> n \<and> n \<le> 70) \<or> (48 \<le> n \<and> n \<le> 57))"

text \<open>
  Calls into Go's standard library that the model takes as given: the recognisers for IPv4,
  IPv6, domains and emails and \<open>net.ParseIP\<close>, none of which can panic, and the Unicode
  lowering \<open>strings.Map(unicode.ToLower, s)\<close>.
\<close>

record golib =
  ipv4Pattern_FindAllString :: "string \<Rightarrow> string list"
  ipv6FullPattern_FindAllString :: "string \<Rightarrow> string list"
  ipv6CompressedPattern_FindAllString :: "string \<Rightarrow> string list"
  domainPattern_FindAllString :: "string \<Rightarrow> string list"
  emailPattern_FindAllString :: "string \<Rightarrow> string list"
  net_ParseIP_ok :: "string \<Rightarrow> bool"
  net_ParseIP_To4_ok :: "string \<Rightarrow> bool"
  strings_Map_unicode_ToLower :: "string \<Rightarrow> string"

definition isASCIIChar :: "char \<Rightarrow> bool" where
  "isASCIIChar c = ((of_char c :: nat) < 128)"

definition toLowerChar :: "char \<Rightarrow> char" where
  "toLowerChar c = (if isUpperChar c then char_of ((of_char c :: nat) + 32) else c)"

text \<open>
  \<open>strings.ToLower\<close>: on a string of ASCII bytes only, \<open>A\<close>..\<open>Z\<close> move to \<open>a\<close>..\<open>z\<close> and
  every other byte stays; a string with a byte from 0x80 on goes through the Unicode lowering
  of the library.
\<close>

definition strings_ToLower :: "golib \<Rightarrow> string \<Rightarrow> string" where
  "strings_ToLower gl s =
     (if list_all isASCIIChar s then map toLowerChar s else strings_Map_unicode_ToLower gl s)"

definition strings_HasPrefix :: "string \<Rightarrow> string \<Rightarrow> bool" where
  "strings_HasPrefix s p = (length p \<le> length s \<and> take (length p) s = p)"

text \<open>\<open>strings.TrimRight(s, cutset)\<close>: removes every trailing byte that is in the cutset.\<close>

definition strings_TrimRight :: "string \<Rightarrow> string \<Rightarrow> string" where
  "strings_TrimRight s cutset = rev (dropWhile (\<lambda>c. c \<in> set cutset) (rev s))"

section \<open>The recognisers of the extractor\<close>

text \<open>
  \<open>\b\<close>: the position between \<open>prev\<close> and \<open>next\<close> is a word boundary when exactly one of the two
  is a word character; the start and the end of the text count as non-word.
\<close>

definition isWordOpt :: "char option \<Rightarrow> bool" where
  "isWordOpt c = (case c of None \<Rightarrow> False | Some x \<Rightarrow> isWordChar x)"

definition wordBoundary :: "char option \<Rightarrow> char option \<Rightarrow> bool" where
  "wordBoundary prev nxt = (isWordOpt prev \<noteq> isWordOpt nxt)"

definition headOpt :: "string \<Rightarrow> char option" where
  "headOpt s = (case s of [] \<Rightarrow> None | c # _ \<Rightarrow> Some c)"

text \<open>
  \<open>\b[a-fA-F0-9]{n}\b\<close> matched at the current position, \<open>prev\<close> being the byte before it
  (\<open>n\<close> is 32, 40 or 64).
\<close>

definition matchHexAt :: "nat \<Rightarrow> char option \<Rightarrow> string \<Rightarrow> bool" where
  "matchHexAt n prev s =
     (wordBoundary prev (headOpt s) \<and> n \<le> length s \<and> list_all isHexChar (take n s) \<and>
      wordBoundary (Some (last (take n s))) (headOpt (drop n s)))"

text \<open>
  \<open>FindAllString(content, -1)\<close> for the pattern above: the leftmost match, then the search
  goes on behind it.
\<close>

fun findAllHex :: "nat \<Rightarrow> char option \<Rightarrow> string \<Rightarrow> string list" where
  "findAllHex n prev [] = []"
| "findAllHex n prev (c # cs) =
     (if matchHexAt n prev (c # cs)
      then take n (c # cs) # findAllHex n (Some (last (take n (c # cs)))) (drop (n - 1) cs)
      else findAllHex n (Some c) cs)"

definition md5Pattern_FindAllString :: "string \<Rightarrow> string list" where
  "md5Pattern_FindAllString content = findAllHex 32 None content"

definition sha1Pattern_FindAllString :: "string \<Rightarrow> string list" where
  "sha1Pattern_FindAllString content = findAllHex 40 None content"

definition sha256Pattern_FindAllString :: "string \<Rightarrow> string list" where
  "sha256Pattern_FindAllString content = findAllHex 64 None content"

text \<open>
  The class \<open>[^\s<>"'\x60{}\[\]|\\^]\<close> of the URL pattern: every byte but white space
  (\<open>\s\<close> is tab, newline, form feed, carriage return, space) and the listed punctuation.
\<close>

definition urlExcluded :: "char list" where
  "urlExcluded = [CHR 0x09, CHR 0x0A, CHR 0x0C, CHR 0x0D, CHR 0x20,
     CHR ''<'', CHR ''>'', CHR 0x22, CHR 0x27, CHR 0x60,
     CHR ''{'', CHR ''}'', CHR ''['', CHR '']'', CHR ''|'', CHR 0x5C, CHR ''^'']"

definition urlCharOk :: "char \<Rightarrow> bool" where
  "urlCharOk c = (c \<notin> set urlExcluded)"

text \<open>
  \<open>(?i)https?://\<close> at the start of \<open>s\<close>: the number of bytes it takes. Under \<open>(?i)\<close> the
  letter \<open>s\<close> also folds to U+017F, whose UTF-8 encoding is the two bytes C5 BF.
\<close>

definition urlSchemeLen :: "string \<Rightarrow> nat option" where
  "urlSchemeLen s =
     (if map toLowerChar (take 4 s) = ''http'' then
        (let r = drop 4 s in
         if (take 1 r = ''s'' \<or> take 1 r = ''S'') \<and> take 3 (drop 1 r) = ''://'' then Some 8
         else if take 2 r = [CHR 0xC5, CHR 0xBF] \<and> take 3 (drop 2 r) = ''://'' then Some 9
         else if take 3 r = ''://'' then Some 7
         else None)
      else None)"

text \<open>The whole URL pattern at the current position: the scheme, then a longest non-empty run.\<close>

definition urlMatchAt :: "char option \<Rightarrow> string \<Rightarrow> string option" where
  "urlMatchAt prev s =
     (if wordBoundary prev (headOpt s) then
        (case urlSchemeLen s of
           None \<Rightarrow> None
         | Some k \<Rightarrow>
             (let run = takeWhile urlCharOk (drop k s) in
              if run = [] then None else Some (take k s @ run)))
      else None)"

fun findAllURL :: "char option \<Rightarrow> string \<Rightarrow> string list" where
  "findAllURL prev [] = []"
| "findAllURL prev (c # cs) =
     (case urlMatchAt prev (c # cs) of
        Some m \<Rightarrow> m # findAllURL (Some (last m)) (drop (length m - 1) cs)
      | None \<Rightarrow> findAllURL (Some c) cs)"

definition urlPattern_FindAllString :: "string \<Rightarrow> string list" where
  "urlPattern_FindAllString content = findAllURL None content"

section \<open>The extractor\<close>

datatype IOCType =
    IOCTypeIPv4 | IOCTypeIPv6 | IOCTypeDomain | IOCTypeURL
  | IOCTypeMD5 | IOCTypeSHA1 | IOCTypeSHA256 | IOCTypeEmail

definition hashFalsePositivePatterns :: "string list" where
  "hashFalsePositivePatterns =
     [''ffffffffffffffffffffffffffffffff'', ''00000000000000000000000000000000'']"

text \<open>\<open>deduplicate\<close>: keeps the first occurrence of every string; \<open>seen\<close> is the map of the loop.\<close>

fun deduplicate_loop :: "string list \<Rightarrow> string list \<Rightarrow> string list" where
  "deduplicate_loop seen [] = []"
| "deduplicate_loop seen (item # items) =
     (if item \<in> set seen then deduplicate_loop seen items
      else item # deduplicate_loop (item # seen) items)"

definition deduplicate :: "string list \<Rightarrow> string list" where
  "deduplicate items = deduplicate_loop [] items"

definition toLower :: "golib \<Rightarrow> string list \<Rightarrow> string list" where
  "toLower gl items = map (strings_ToLower gl) items"

definition validateIPv4s :: "golib \<Rightarrow> string list \<Rightarrow> string list" where
  "validateIPv4s lib ips = filter (net_ParseIP_ok lib) ips"

definition validateIPv6s :: "golib \<Rightarrow> string list \<Rightarrow> string list" where
  "validateIPv6s lib ips = filter (\<lambda>ip. net_ParseIP_ok lib ip \<and> \<not> net_ParseIP_To4_ok lib ip) ips"

text \<open>
  The inner loop of \<open>filterHashFalsePositives\<close>: \<open>fp[:len(lower)]\<close> is evaluated first and
  panics when \<open>lower\<close> is longer than the pattern.
\<close>

fun isFalsePositive :: "string \<Rightarrow> string list \<Rightarrow> go_panic + bool" where
  "isFalsePositive lower [] = Inr False"
| "isFalsePositive lower (fp # fps) =
     (case slice_to fp (length lower) of
        Inl p \<Rightarrow> Inl p
      | Inr pre \<Rightarrow>
          if strings_HasPrefix lower pre \<or> lower = pre then Inr True
          else isFalsePositive lower fps)"

fun filterHashFalsePositives :: "golib \<Rightarrow> string list \<Rightarrow> go_panic + string list" where
  "filterHashFalsePositives gl [] = Inr []"
| "filterHashFalsePositives gl (h # hashes) =
     (case isFalsePositive (strings_ToLower gl h) hashFalsePositivePatterns of
        Inl p \<Rightarrow> Inl p
      | Inr isFP \<Rightarrow>
          (case filterHashFalsePositives gl hashes of
             Inl p \<Rightarrow> Inl p
           | Inr filtered \<Rightarrow> Inr (if isFP then filtered else h # filtered)))"

definition extractIPv4 :: "golib \<Rightarrow> string \<Rightarrow> string list" where
  "extractIPv4 lib content = deduplicate (validateIPv4s lib (ipv4Pattern_FindAllString lib content))"

definition extractIPv6 :: "golib \<Rightarrow> string \<Rightarrow> string list" where
  "extractIPv6 lib content =
     deduplicate (validateIPv6s lib
       (ipv6FullPattern_FindAllString lib content @ ipv6CompressedPattern_FindAllString lib content))"

definition extractHash :: "golib \<Rightarrow> string list \<Rightarrow> go_panic + string list" where
  "extractHash gl matches =
     (case filterHashFalsePositives gl matches of
        Inl p \<Rightarrow> Inl p
      | Inr filtered \<Rightarrow> Inr (deduplicate (toLower gl filtered)))"

definition extractMD5 :: "golib \<Rightarrow> string \<Rightarrow> go_panic + string list" where
  "extractMD5 gl content = extractHash gl (md5Pattern_FindAllString content)"

definition extractSHA1 :: "golib \<Rightarrow> string \<Rightarrow> go_panic + string list" where
  "extractSHA1 gl content = extractHash gl (sha1Pattern_FindAllString content)"

definition extractSHA256 :: "golib \<Rightarrow> string \<Rightarrow> go_panic + string list" where
  "extractSHA256 gl content = extractHash gl (sha256Pattern_FindAllString content)"

definition extractDomains :: "golib \<Rightarrow> string \<Rightarrow> string list" where
  "extractDomains lib content = deduplicate (toLower lib (domainPattern_FindAllString lib content))"

definition urlCutset :: string where
  "urlCutset = ''.,;:!?)''"

definition extractURLs :: "string \<Rightarrow> string list" where
  "extractURLs content =
     deduplicate (map (\<lambda>u. strings_TrimRight u urlCutset) (urlPattern_FindAllString content))"

definition extractEmails :: "golib \<Rightarrow> string \<Rightarrow> string list" where
  "extractEmails lib content = deduplicate (toLower lib (emailPattern_FindAllString lib content))"

text \<open>
  The result of \<open>Scan\<close> is a map from IOC type to its list; the final loop deletes the types
  whose list is empty.
\<close>

type_synonym scan_result = "IOCType \<rightharpoonup> string list"

definition removeEmpty :: "scan_result \<Rightarrow> scan_result" where
  "removeEmpty results = (\<lambda>k. case results k of None \<Rightarrow> None | Some v \<Rightarrow> if v = [] then None else Some v)"

definition Scan :: "golib \<Rightarrow> string \<Rightarrow> go_panic + scan_result" where
  "Scan lib content =
     (let v4 = extractIPv4 lib content;
          v6 = extractIPv6 lib content
      in case extractMD5 lib content of Inl p \<Rightarrow> Inl p | Inr md5 \<Rightarrow>
         (case extractSHA1 lib content of Inl p \<Rightarrow> Inl p | Inr sha1 \<Rightarrow>
         (case extractSHA256 lib content of Inl p \<Rightarrow> Inl p | Inr sha256 \<Rightarrow>
            Inr (removeEmpty
              [IOCTypeIPv4 \<mapsto> v4, IOCTypeIPv6 \<mapsto> v6, IOCTypeMD5 \<mapsto> md5,
               IOCTypeSHA1 \<mapsto> sha1, IOCTypeSHA256 \<mapsto> sha256,
               IOCTypeDomain \<mapsto> extractDomains lib content,
               IOCTypeURL \<mapsto> extractURLs content,
               IOCTypeEmail \<mapsto> extractEmails lib content]))))"

text \<open>\<open>results[t]\<close> on the returned map: the empty list for a type that is not a key.\<close>

definition results_at :: "scan_result \<Rightarrow> IOCType \<Rightarrow> string list" where
  "results_at r t = (case r t of None \<Rightarrow> [] | Some v \<Rightarrow> v)"

definition AllIOCTypes :: "IOCType list" where
  "AllIOCTypes = [IOCTypeIPv4, IOCTypeIPv6, IOCTypeDomain, IOCTypeURL,
     IOCTypeMD5, IOCTypeSHA1, IOCTypeSHA256, IOCTypeEmail]"

definition CountIOCs :: "scan_result \<Rightarrow> int" where
  "CountIOCs results = (\<Sum>t \<leftarrow> AllIOCTypes. int (length (results_at results t)))"

text \<open>
  A library whose four recognisers find nothing: the text holds no address, domain or email.
  (Its Unicode lowering is never reached on ASCII text.)
\<close>

definition quietLib :: golib where
  "quietLib = \<lparr> ipv4Pattern_FindAllString = (\<lambda>_. []),
     ipv6FullPattern_FindAllString = (\<lambda>_. []),
     ipv6CompressedPattern_FindAllString = (\<lambda>_. []),
     domainPattern_FindAllString = (\<lambda>_. []),
     emailPattern_FindAllString = (\<lambda>_. []),
     net_ParseIP_ok = (\<lambda>_. False),
     net_ParseIP_To4_ok = (\<lambda>_. False),
     strings_Map_unicode_ToLower = (\<lambda>s. s) \<rparr>"

section \<open>Models and stores\<close>

text \<open>
  A \<open>time.Time\<close> is an instant, counted in nanoseconds since the Unix epoch; \<open>t.Equal(u)\<close> is
  the equality of the two counts. A file's modification time comes with its nanoseconds.
  The time columns of the two tables are of type \<open>DateTime\<close>, which keeps whole seconds:
  \<open>DateTime t\<close> is the instant such a column gives back for \<open>t\<close> (within the range of the
  column type).
\<close>

definition seconds :: "int \<Rightarrow> int" where
  "seconds n = n * 1000000000"

definition DateTime :: "int \<Rightarrow> int" where
  "DateTime t = (t div 1000000000) * 1000000000"

text \<open>An \<open>error\<close> value of Go carries its message.\<close>

datatype go_error = GoError string

definition wrapError :: "string \<Rightarrow> go_error \<Rightarrow> go_error" where
  "wrapError msg e = (case e of GoError m \<Rightarrow> GoError (msg @ '': '' @ m))"

definition errorString :: "go_error \<Rightarrow> string" where
  "errorString e = (case e of GoError m \<Rightarrow> m)"

datatype ScanStatus =
    ScanStatusPending | ScanStatusClean | ScanStatusInfected | ScanStatusMisc | ScanStatusFailed

record IOC =
  Value :: string
  Type :: IOCType
  SourceFileID :: string
  MalwareFamily :: string
  Confidence :: "8 word"
  FirstSeen :: int
  LastSeen :: int
  HitCount :: "32 word"
  VectorID :: "64 word option"
  Tags :: "string list"

record FileMetadata =
  FileID :: string
  FilePath :: string
  FileSize :: "64 word"
  LastModified :: int
  ScanStatus :: ScanStatus
  IOCCount :: "32 word"
  MinIOKey :: string
  ErrorMessage :: string
  ProcessedAt :: int
  UpdatedAt :: int

record FileJob =
  job_FilePath :: string
  job_FileSize :: int
  job_LastModified :: int

record ProcessResult =
  res_FileID :: string
  res_FilePath :: string
  res_Status :: ScanStatus
  res_IOCCount :: int
  res_IOCs :: scan_result
  res_Error :: "go_error option"

record IOCResult =
  r_IOC :: string
  r_Found :: bool
  r_Type :: "IOCType option"
  r_SourceFileID :: string
  r_MalwareFamily :: string
  r_Confidence :: "8 word"
  r_FirstSeen :: string

record CheckResponse =
  Results :: "IOCResult list"
  Total :: int
  Found :: int
  NotFound :: int

record ErrorResponse =
  Error :: string
  Code :: nat
  Details :: string

text \<open>
  The two ClickHouse tables. In \<open>file_registry\<close> a row inserted later stands earlier in the
  list; \<open>ioc_store\<close> is in insertion order.
\<close>

record clickhouse_tables =
  file_registry :: "FileMetadata list"
  ioc_store :: "IOC list"

text \<open>
  \<open>ORDER BY updated_at DESC LIMIT 1\<close>: the row with the greatest \<open>updated_at\<close>; among equal
  ones the row inserted last.
\<close>

fun newestRow :: "FileMetadata list \<Rightarrow> FileMetadata option" where
  "newestRow [] = None"
| "newestRow (m # ms) =
     (case newestRow ms of
        None \<Rightarrow> Some m
      | Some m' \<Rightarrow> if UpdatedAt m < UpdatedAt m' then Some m' else Some m)"

definition latestRow :: "FileMetadata list \<Rightarrow> string \<Rightarrow> FileMetadata option" where
  "latestRow rows fileID = newestRow (filter (\<lambda>m. FileID m = fileID) rows)"

text \<open>
  \<open>WHERE ioc_value IN (?) ORDER BY last_seen DESC\<close>: the matching rows, the greatest
  \<open>last_seen\<close> first (rows with equal \<open>last_seen\<close> keep their table order).
\<close>

definition selectIOCs :: "IOC list \<Rightarrow> string list \<Rightarrow> IOC list" where
  "selectIOCs rows iocValues =
     sort_key (\<lambda>r. - LastSeen r) (filter (\<lambda>r. Value r \<in> set iocValues) rows)"

section \<open>The API server\<close>

text \<open>
  The server reads the two ClickHouse tables; \<open>ch_error\<close> is the error every statement
  returns while the connection is broken. The Redis and MinIO clients are libraries: what
  their calls answer is given. Metrics and log lines are not part of the model.
\<close>

record ObjectInfo =
  info_ContentType :: string
  info_Size :: int

record minio_Object =
  obj_Stat :: "go_error + ObjectInfo"
  obj_Read :: string

record Server =
  ch :: clickhouse_tables
  ch_error :: "go_error option"
  redis_client_BFMExists :: "string list \<Rightarrow> go_error + bool list"
  minio_client_GetObject :: "string \<Rightarrow> go_error + minio_Object"
  time_Format_RFC3339 :: "int \<Rightarrow> string"

text \<open>The calls a handler makes to the stores, in order.\<close>

datatype store_call =
    Call_BFMExists "string list"
  | Call_QueryIOCs "string list"
  | Call_GetFileMetadata string
  | Call_GetObject string

datatype http_body =
    JSONError ErrorResponse
  | JSONCheck CheckResponse
  | Stream string

record http_response =
  status :: nat
  headers :: "(string \<times> string) list"
  body :: http_body

definition jsonError :: "nat \<Rightarrow> string \<Rightarrow> string \<Rightarrow> http_response" where
  "jsonError code msg det =
     \<lparr> status = code, headers = [], body = JSONError \<lparr> Error = msg, Code = code, Details = det \<rparr> \<rparr>"

definition BFMExists :: "Server \<Rightarrow> string list \<Rightarrow> go_error + bool list" where
  "BFMExists s items = (if length items = 0 then Inr [] else redis_client_BFMExists s items)"

definition QueryIOCs :: "Server \<Rightarrow> string list \<Rightarrow> go_error + IOC list" where
  "QueryIOCs s iocValues =
     (if length iocValues = 0 then Inr []
      else case ch_error s of
             Some e \<Rightarrow> Inl (wrapError ''failed to query IOCs'' e)
           | None \<Rightarrow> Inr (selectIOCs (ioc_store (ch s)) iocValues))"



text \<open>
  The first loop of \<open>checkHandler\<close>: the values whose filter verdict \<open>bloomResults[i]\<close> is
  true, \<open>i\<close> being the position of the value.
\<close>

fun potentialHitsFrom :: "nat \<Rightarrow> string list \<Rightarrow> bool list \<Rightarrow> go_panic + string list" where
  "potentialHitsFrom i [] bloomResults = Inr []"
| "potentialHitsFrom i (ioc # iocs) bloomResults =
     (case index_at bloomResults i of
        Inl p \<Rightarrow> Inl p
      | Inr b \<Rightarrow>
          (case potentialHitsFrom (Suc i) iocs bloomResults of
             Inl p \<Rightarrow> Inl p
           | Inr hits \<Rightarrow> Inr (if b then ioc # hits else hits)))"

text \<open>\<open>foundMap[ioc.Value] = ioc\<close> for every row in turn: a later row replaces an earlier one.\<close>

definition buildFoundMap :: "IOC list \<Rightarrow> (string \<rightharpoonup> IOC)" where
  "buildFoundMap foundIOCs = foldl (\<lambda>m ioc. m(Value ioc \<mapsto> ioc)) Map.empty foundIOCs"

definition resultFor :: "Server \<Rightarrow> (string \<rightharpoonup> IOC) \<Rightarrow> string \<Rightarrow> IOCResult" where
  "resultFor s foundMap ioc =
     (case foundMap ioc of
        Some found \<Rightarrow>
          \<lparr> r_IOC = ioc, r_Found = True, r_Type = Some (Type found),
            r_SourceFileID = SourceFileID found, r_MalwareFamily = MalwareFamily found,
            r_Confidence = Confidence found,
            r_FirstSeen = time_Format_RFC3339 s (FirstSeen found) \<rparr>
      | None \<Rightarrow>
          \<lparr> r_IOC = ioc, r_Found = False, r_Type = None, r_SourceFileID = [],
            r_MalwareFamily = [], r_Confidence = 0, r_FirstSeen = [] \<rparr>)"

text \<open>The second loop: one result per position, and the count of the found ones.\<close>

fun buildResults :: "Server \<Rightarrow> (string \<rightharpoonup> IOC) \<Rightarrow> string list \<Rightarrow> IOCResult list \<times> int" where
  "buildResults s foundMap [] = ([], 0)"
| "buildResults s foundMap (ioc # iocs) =
     (let result = resultFor s foundMap ioc;
          (results, foundCount) = buildResults s foundMap iocs
      in (result # results, (if r_Found result then 1 else 0) + foundCount))"

text \<open>\<open>req\<close> is the parsed request: \<open>None\<close> when \<open>BodyParser\<close> fails, else the \<open>iocs\<close> array.\<close>

definition checkHandler ::
  "Server \<Rightarrow> string list option \<Rightarrow> go_panic + (http_response \<times> store_call list)" where
  "checkHandler s req =
     (case req of
        None \<Rightarrow> Inr (jsonError 400 ''Invalid request body'' [], [])
      | Some iocs \<Rightarrow>
          if length iocs = 0 then Inr (jsonError 400 ''No IOCs provided'' [], [])
          else if length iocs > 1000
          then Inr (jsonError 400 ''Too many IOCs'' ''Maximum 1000 IOCs per request'', [])
          else
            (let bloomResults =
                   (case BFMExists s iocs of
                      Inl e \<Rightarrow> replicate (length iocs) True
                    | Inr bs \<Rightarrow> bs)
             in case potentialHitsFrom 0 iocs bloomResults of
                  Inl p \<Rightarrow> Inl p
                | Inr potentialHits \<Rightarrow>
                    (let foundIOCs =
                           (if length potentialHits > 0
                            then (case QueryIOCs s potentialHits of Inl e \<Rightarrow> [] | Inr rows \<Rightarrow> rows)
                            else []);
                         calls = Call_BFMExists iocs #
                           (if length potentialHits > 0 then [Call_QueryIOCs potentialHits] else []);
                         (results, foundCount) = buildResults s (buildFoundMap foundIOCs) iocs
                     in Inr (\<lparr> status = 200, headers = [],
                               body = JSONCheck \<lparr> Results = results, Total = int (length iocs),
                                 Found = foundCount, NotFound = int (length iocs) - foundCount \<rparr> \<rparr>,
                             calls))))"

text \<open>\<open>strconv.FormatInt(n, 10)\<close>.\<close>

fun decimalDigits :: "nat \<Rightarrow> string" where
  "decimalDigits n =
     (if n < 10 then [char_of (48 + n)] else decimalDigits (n div 10) @ [char_of (48 + n mod 10)])"

definition strconv_FormatInt :: "int \<Rightarrow> string" where
  "strconv_FormatInt n = (if n < 0 then CHR ''-'' # decimalDigits (nat (- n)) else decimalDigits (nat n))"


section \<open>Configuration and the authentication middleware\<close>

text \<open>\<open>environ\<close> is \<open>os.Getenv\<close>: the empty string for a variable that is not set.\<close>

definition getEnv :: "(string \<Rightarrow> string) \<Rightarrow> string \<Rightarrow> string \<Rightarrow> string" where
  "getEnv environ key defaultValue = (if environ key \<noteq> [] then environ key else defaultValue)"

text \<open>The field \<open>API.APIKey\<close> of the configuration \<open>Load\<close> returns.\<close>

definition Load_APIKey :: "(string \<Rightarrow> string) \<Rightarrow> string" where
  "Load_APIKey environ = getEnv environ ''API_KEY'' []"

text \<open>
  \<open>Redis_script\<close> is the Redis client of the configuration (\<open>None\<close> for a nil client),
  given as what the rate-limit script answers for a key hash.
\<close>

record AuthConfig =
  APIKey :: string
  Redis_script :: "(string \<Rightarrow> go_error + int) option"
  RateLimit :: int
  SkipPaths :: "string list"

text \<open>The configuration \<open>SetupRoutes\<close> passes to the middleware.\<close>

definition routesAuthConfig :: "string \<Rightarrow> (string \<Rightarrow> go_error + int) option \<Rightarrow> AuthConfig" where
  "routesAuthConfig apiKey redis =
     \<lparr> APIKey = apiKey, Redis_script = redis, RateLimit = 1000,
       SkipPaths = [''/health'', ''/readyz'', ''/metrics''] \<rparr>"

text \<open>A request: its path and the two headers the middleware reads (empty when absent).\<close>

record Request =
  req_Path :: string
  req_X_API_Key :: string
  req_Authorization :: string

datatype handler_outcome = Next | Respond http_response

text \<open>\<open>IncrementRateLimit\<close>: the counter and whether it exceeds the limit.\<close>

definition IncrementRateLimit ::
  "(string \<Rightarrow> go_error + int) \<Rightarrow> string \<Rightarrow> int \<Rightarrow> go_error + (int \<times> bool)" where
  "IncrementRateLimit script apiKeyHash limit =
     (case script apiKeyHash of Inl e \<Rightarrow> Inl e | Inr result \<Rightarrow> Inr (result, result > limit))"

text \<open>The key a request presents: the \<open>X-API-Key\<close> header, else the token of a Bearer header.\<close>

definition presentedKey :: "Request \<Rightarrow> string" where
  "presentedKey r =
     (if req_X_API_Key r \<noteq> [] then req_X_API_Key r
      else if strings_HasPrefix (req_Authorization r) ''Bearer ''
      then drop (length ''Bearer '') (req_Authorization r)
      else [])"

definition skipsAuth :: "AuthConfig \<Rightarrow> Request \<Rightarrow> bool" where
  "skipsAuth cfg r =
     (req_Path r \<in> set (SkipPaths cfg) \<or>
      list_ex (\<lambda>p. strings_HasPrefix (req_Path r) p) (SkipPaths cfg))"

text \<open>
  The handler \<open>NewAuthMiddleware\<close> returns; \<open>hashAPIKey\<close> is the SHA-256 of the key in hex.
  The \<open>X-RateLimit\<close> headers it sets are left out.
\<close>

definition NewAuthMiddleware ::
  "(string \<Rightarrow> string) \<Rightarrow> AuthConfig \<Rightarrow> Request \<Rightarrow> handler_outcome" where
  "NewAuthMiddleware hashAPIKey cfg r =
     (if skipsAuth cfg r then Next
      else
        (let apiKey = presentedKey r in
         if apiKey = [] then Respond (jsonError 401 ''Missing API key'' [])
         else if APIKey cfg \<noteq> [] \<and> apiKey \<noteq> APIKey cfg
         then Respond (jsonError 401 ''Invalid API key'' [])
         else
           (case Redis_script cfg of
              None \<Rightarrow> Next
            | Some script \<Rightarrow>
                if RateLimit cfg > 0 then
                  (case IncrementRateLimit script (hashAPIKey apiKey) (RateLimit cfg) of
                     Inl e \<Rightarrow> Next
                   | Inr (count, exceeded) \<Rightarrow>
                       if exceeded
                       then Respond (jsonError 429 ''Rate limit exceeded''
                                       ''Please slow down your requests'')
                       else Next)
                else Next)))"

section \<open>The ingestion pipeline\<close>

text \<open>
  The calls of a worker that can fail; \<open>fault\<close> says which of them fail, and with what error.
  \<open>GenerateFileID\<close> is the SHA-256 of the path in hex, \<open>time_Now\<close> the wall clock.
\<close>

datatype store_op =
    Op_CheckFileChanged string
  | Op_BFMAdd "string list"
  | Op_BatchInsertIOCs string
  | Op_UploadBytes string
  | Op_UpsertFileMetadata string

record Ingestor =
  lib :: golib
  GenerateFileID :: "string \<Rightarrow> string"
  os_ReadFile :: "string \<Rightarrow> go_error + string"
  time_Now :: int
  fault :: "store_op \<Rightarrow> go_error option"

record IngestorStats =
  FilesProcessed :: int
  FilesSkipped :: int
  FilesFailed :: int
  IOCsExtracted :: int
  BytesProcessed :: int

text \<open>
  What a run changes: the two tables, the items of the Bloom filter, the objects of the
  bucket (key, content, content type) and the counters.
\<close>

record world = clickhouse_tables +
  bloom :: "string list"
  objects :: "(string \<times> string \<times> string) list"
  stats :: IngestorStats

text \<open>
  The \<open>last_modified\<close> the registry answers for a file id: none when the query fails or the
  file has no row. \<open>CheckFileChanged\<close> compares it, a whole second, with the modification
  time of the job by \<open>Equal\<close>.
\<close>

definition storedLastModified :: "Ingestor \<Rightarrow> world \<Rightarrow> string \<Rightarrow> int option" where
  "storedLastModified i w fileID =
     (case fault i (Op_CheckFileChanged fileID) of
        Some e \<Rightarrow> None
      | None \<Rightarrow> map_option LastModified (latestRow (file_registry w) fileID))"

definition CheckFileChanged :: "Ingestor \<Rightarrow> world \<Rightarrow> string \<Rightarrow> int \<Rightarrow> bool" where
  "CheckFileChanged i w fileID lastModified =
     (case storedLastModified i w fileID of
        None \<Rightarrow> True
      | Some dbLastModified \<Rightarrow> dbLastModified \<noteq> lastModified)"

definition contentTypes :: "(string \<times> string) list" where
  "contentTypes =
     [(''.txt'', ''text/plain''), (''.log'', ''text/plain''), (''.json'', ''application/json''),
      (''.xml'', ''application/xml''), (''.html'', ''text/html''), (''.csv'', ''text/csv''),
      (''.md'', ''text/markdown''), (''.yaml'', ''application/x-yaml''),
      (''.yml'', ''application/x-yaml''), (''.conf'', ''text/plain''), (''.cfg'', ''text/plain''),
      (''.ini'', ''text/plain'')]"

definition GetContentType :: "string \<Rightarrow> string" where
  "GetContentType filePath =
     (case filter (\<lambda>(ext, ct). length filePath > length ext \<and>
                     drop (length filePath - length ext) filePath = ext) contentTypes of
        [] \<Rightarrow> ''application/octet-stream''
      | (ext, ct) # _ \<Rightarrow> ct)"

text \<open>
  \<open>FlattenIOCs\<close>, with the four fields the worker stamps on every record. (Go visits the
  keys of a map in no fixed order; the model takes the order of \<open>AllIOCTypes\<close>.)
\<close>

definition FlattenIOCs :: "scan_result \<Rightarrow> string \<Rightarrow> IOC list" where
  "FlattenIOCs results sourceFileID =
     concat (map (\<lambda>t. map (\<lambda>v.
        \<lparr> Value = v, Type = t, SourceFileID = sourceFileID, MalwareFamily = [], Confidence = 0,
          FirstSeen = 0, LastSeen = 0, HitCount = 0, VectorID = None, Tags = [] \<rparr>)
        (results_at results t)) AllIOCTypes)"

definition stampIOC :: "int \<Rightarrow> IOC \<Rightarrow> IOC" where
  "stampIOC now ioc =
     ioc\<lparr> FirstSeen := now, LastSeen := now, Confidence := 50, MalwareFamily := ''Unknown'' \<rparr>"

text \<open>The Bloom filter after the \<open>BFMAdd\<close> calls, one per type; a failed call adds nothing.\<close>

definition addToBloom :: "Ingestor \<Rightarrow> scan_result \<Rightarrow> string list \<Rightarrow> string list" where
  "addToBloom i iocs bl =
     foldl (\<lambda>b t. let values = results_at iocs t in
              if length values > 0 \<and> fault i (Op_BFMAdd values) = None then b @ values else b)
       bl AllIOCTypes"

definition mkResult ::
  "string \<Rightarrow> string \<Rightarrow> ScanStatus \<Rightarrow> int \<Rightarrow> scan_result \<Rightarrow> go_error option \<Rightarrow> ProcessResult" where
  "mkResult fileID path st n iocs err =
     \<lparr> res_FileID = fileID, res_FilePath = path, res_Status = st, res_IOCCount = n,
       res_IOCs = iocs, res_Error = err \<rparr>"

text \<open>
  \<open>UpsertFileMetadata\<close>: one more row, stamped with the current time; nothing when the
  statement fails (the worker only logs that). The three times of the row go into
  \<open>DateTime\<close> columns.
\<close>

definition UpsertFileMetadata :: "Ingestor \<Rightarrow> FileMetadata \<Rightarrow> FileMetadata list \<Rightarrow> FileMetadata list" where
  "UpsertFileMetadata i meta rows =
     (if fault i (Op_UpsertFileMetadata (FileID meta)) = None
      then meta\<lparr> LastModified := DateTime (LastModified meta),
                 ProcessedAt := DateTime (ProcessedAt meta),
                 UpdatedAt := DateTime (time_Now i) \<rparr> # rows
      else rows)"

text \<open>The row of \<open>ioc_store\<close> that \<open>BatchInsertIOCs\<close> writes for a record.\<close>

definition insertedIOC :: "IOC \<Rightarrow> IOC" where
  "insertedIOC ioc = ioc\<lparr> FirstSeen := DateTime (FirstSeen ioc), LastSeen := DateTime (LastSeen ioc) \<rparr>"

text \<open>
  \<open>processFile\<close>. The three early returns (unchanged file, read failure, panic of \<open>Scan\<close>)
  leave before the registry is written; \<open>Scan\<close> never returns an error, so the branch on
  its error is not there.
\<close>

definition processFile :: "Ingestor \<Rightarrow> world \<Rightarrow> FileJob \<Rightarrow> go_panic + (world \<times> ProcessResult)" where
  "processFile i w job =
     (let path = job_FilePath job;
          fileID = GenerateFileID i path
      in
      if \<not> CheckFileChanged i w fileID (job_LastModified job) then
        Inr (w\<lparr> stats := (stats w)\<lparr> FilesSkipped := FilesSkipped (stats w) + 1 \<rparr> \<rparr>,
             mkResult fileID path ScanStatusClean 0 Map.empty None)
      else
        (case os_ReadFile i path of
           Inl err \<Rightarrow>
             Inr (w\<lparr> stats := (stats w)\<lparr> FilesFailed := FilesFailed (stats w) + 1 \<rparr> \<rparr>,
                  mkResult fileID path ScanStatusFailed 0 Map.empty (Some err))
         | Inr content \<Rightarrow>
             (case Scan (lib i) content of
                Inl p \<Rightarrow> Inl p
              | Inr iocs \<Rightarrow>
                  (let n = CountIOCs iocs;
                       st = (if n > 0 then ScanStatusInfected else ScanStatusMisc);
                       result = mkResult fileID path st n iocs None;
                       iocList = map (stampIOC (time_Now i)) (FlattenIOCs iocs fileID);
                       w1 = w\<lparr> stats := (stats w)\<lparr> BytesProcessed :=
                                 BytesProcessed (stats w) + int (length content) \<rparr> \<rparr>;
                       w2 = (if n > 0 then
                               w1\<lparr> stats := (stats w1)\<lparr> IOCsExtracted := IOCsExtracted (stats w1) + n \<rparr>,
                                   bloom := addToBloom i iocs (bloom w1),
                                   ioc_store :=
                                     (if fault i (Op_BatchInsertIOCs fileID) = None
                                      then ioc_store w1 @ map insertedIOC iocList
                                      else ioc_store w1) \<rparr>
                             else
                               w1\<lparr> objects :=
                                     (if fault i (Op_UploadBytes fileID) = None
                                      then (fileID, content, GetContentType path) # objects w1
                                      else objects w1) \<rparr>);
                       meta = \<lparr> FileID = fileID, FilePath = path,
                                FileSize = word_of_int (job_FileSize job),
                                LastModified = job_LastModified job,
                                ScanStatus = res_Status result,
                                IOCCount = word_of_int (res_IOCCount result),
                                MinIOKey = (if res_Status result = ScanStatusMisc then fileID else []),
                                ErrorMessage =
                                  (case res_Error result of None \<Rightarrow> [] | Some e \<Rightarrow> errorString e),
                                ProcessedAt = time_Now i, UpdatedAt = 0 \<rparr>;
                       w3 = w2\<lparr> file_registry := UpsertFileMetadata i meta (file_registry w2) \<rparr>
                   in Inr (w3\<lparr> stats := (stats w3)\<lparr> FilesProcessed := FilesProcessed (stats w3) + 1 \<rparr> \<rparr>,
                           result)))))"

text \<open>
  \<open>worker\<close>: the jobs of the queue, one after the other (one worker; the order in which
  several workers commit is not modelled). A panic ends the process.
\<close>

fun worker :: "Ingestor \<Rightarrow> world \<Rightarrow> FileJob list \<Rightarrow> go_panic + (world \<times> ProcessResult list)" where
  "worker i w [] = Inr (w, [])"
| "worker i w (job # jobs) =
     (case processFile i w job of
        Inl p \<Rightarrow> Inl p
      | Inr (w', result) \<Rightarrow>
          (case worker i w' jobs of
             Inl p \<Rightarrow> Inl p
           | Inr (w'', results) \<Rightarrow> Inr (w'', result # results)))"

definition zeroStats :: IngestorStats where
  "zeroStats = \<lparr> FilesProcessed = 0, FilesSkipped = 0, FilesFailed = 0, IOCsExtracted = 0,
     BytesProcessed = 0 \<rparr>"

text \<open>The middleware answers 401.\<close>

definition is401 :: "handler_outcome \<Rightarrow> bool" where
  "is401 out = (case out of Next \<Rightarrow> False | Respond resp \<Rightarrow> status resp = 401)"

section \<open>Concrete stores and files\<close>

text \<open>
  A server whose index holds the value \<open>8.8.8.8\<close> twice, seen in file \<open>f-old\<close> at second 100
  and in file \<open>f-new\<close> at second 200. The registry row of \<open>f-new\<close> has no blob key, and the
  bucket has an object under the key \<open>f-new\<close> and under no other key: as with the MinIO
  client, fetching a missing key succeeds and the failure shows when the object is stat'ed.
  In place of the RFC 3339 text of a time, the server prints its count of seconds.
\<close>

definition demoRow :: "string \<Rightarrow> string \<Rightarrow> int \<Rightarrow> IOC" where
  "demoRow v src seen = \<lparr> Value = v, Type = IOCTypeIPv4, SourceFileID = src,
     MalwareFamily = ''Unknown'', Confidence = 50, FirstSeen = seconds seen,
     LastSeen = seconds seen,
     HitCount = 0, VectorID = None, Tags = [] \<rparr>"

definition demoFile :: "string \<Rightarrow> string \<Rightarrow> ScanStatus \<Rightarrow> string \<Rightarrow> FileMetadata" where
  "demoFile fid path st key = \<lparr> FileID = fid, FilePath = path, FileSize = 10,
     LastModified = seconds 50,
     ScanStatus = st, IOCCount = (if st = ScanStatusInfected then 1 else 0), MinIOKey = key,
     ErrorMessage = [], ProcessedAt = seconds 100, UpdatedAt = seconds 100 \<rparr>"

definition demoObject :: minio_Object where
  "demoObject = \<lparr> obj_Stat = Inr \<lparr> info_ContentType = ''text/plain'', info_Size = 18 \<rparr>,
     obj_Read = ''no indicators here'' \<rparr>"

definition missingObject :: minio_Object where
  "missingObject = \<lparr> obj_Stat = Inl (GoError ''The specified key does not exist.''),
     obj_Read = [] \<rparr>"

definition demoServer :: Server where
  "demoServer = \<lparr>
     ch = \<lparr> file_registry = [demoFile ''f-new'' ''/data/a.log'' ScanStatusInfected []],
            ioc_store = [demoRow ''8.8.8.8'' ''f-old'' 100, demoRow ''8.8.8.8'' ''f-new'' 200] \<rparr>,
     ch_error = None,
     redis_client_BFMExists = (\<lambda>items. Inr (map (\<lambda>x. x = ''8.8.8.8'') items)),
     minio_client_GetObject = (\<lambda>k. Inr (if k = ''f-new'' then demoObject else missingObject)),
     time_Format_RFC3339 = (\<lambda>t. strconv_FormatInt (t div 1000000000)) \<rparr>"

text \<open>The middleware as the server sets it up when \<open>API_KEY\<close> is not set.\<close>

definition demoAuthConfig :: AuthConfig where
  "demoAuthConfig = routesAuthConfig (Load_APIKey (\<lambda>_. [])) (Some (\<lambda>_. Inr 1))"

definition demoHash :: "string \<Rightarrow> string" where
  "demoHash k = ''sha256:'' @ k"

definition keyedRequest :: Request where
  "keyedRequest = \<lparr> req_Path = ''/check'', req_X_API_Key = ''anything'', req_Authorization = [] \<rparr>"

definition bearerRequest :: Request where
  "bearerRequest = \<lparr> req_Path = ''/check'', req_X_API_Key = [], req_Authorization = ''Bearer t0ken'' \<rparr>"

definition bareRequest :: Request where
  "bareRequest = \<lparr> req_Path = ''/check'', req_X_API_Key = [], req_Authorization = [] \<rparr>"

text \<open>
  Two files: \<open>/data/a.log\<close> holds an MD5 hash and was modified at second 50 and a half,
  \<open>/data/b.bin\<close> holds no indicator and was modified at second 51 sharp. For
  \<open>faultyIngestor\<close> every batch insert and every upload fails.
\<close>

definition demoIngestor :: Ingestor where
  "demoIngestor = \<lparr> lib = quietLib, GenerateFileID = (\<lambda>p. ''sha256:'' @ p),
     os_ReadFile = (\<lambda>p. if p = ''/data/a.log'' then Inr ''hash d41d8cd98f00b204e9800998ecf8427e''
                        else if p = ''/data/b.bin'' then Inr ''no indicators here''
                        else Inl (GoError ''no such file'')),
     time_Now = seconds 100, fault = (\<lambda>_. None) \<rparr>"

definition faultyIngestor :: Ingestor where
  "faultyIngestor = demoIngestor\<lparr> fault :=
     (\<lambda>op. case op of
        Op_BatchInsertIOCs _ \<Rightarrow> Some (GoError ''failed to send batch'')
      | Op_UploadBytes _ \<Rightarrow> Some (GoError ''failed to upload bytes'')
      | _ \<Rightarrow> None) \<rparr>"

definition emptyWorld :: world where
  "emptyWorld = \<lparr> file_registry = [], ioc_store = [], bloom = [], objects = [], stats = zeroStats \<rparr>"

definition jobA :: FileJob where
  "jobA = \<lparr> job_FilePath = ''/data/a.log'', job_FileSize = 37,
     job_LastModified = seconds 50 + 500000000 \<rparr>"

definition jobB :: FileJob where
  "jobB = \<lparr> job_FilePath = ''/data/b.bin'', job_FileSize = 18,
     job_LastModified = seconds 51 \<rparr>"

text \<open>The stores after a first run over the two files, seen by a new ingestor process.\<close>

definition afterFirstRun :: world where
  "afterFirstRun =
     (case worker demoIngestor emptyWorld [jobA, jobB] of
        Inl p \<Rightarrow> emptyWorld
      | Inr (w, results) \<Rightarrow> w\<lparr> stats := zeroStats \<rparr>)"

section \<open>Properties of the extractor\<close>

lemma findAllHex_length:
  "0 < n \<Longrightarrow> m \<in> set (findAllHex n prev s) \<Longrightarrow> length m = n"
proof (induction n prev s rule: findAllHex.induct)
  case (1 n prev)
  then show ?case by simp
next
  case (2 n prev c cs)
  show ?case
  proof (cases "matchHexAt n prev (c # cs)")
    case True
    then have len: "n \<le> length (c # cs)" by (simp add: matchHexAt_def)
    from 2 True show ?thesis using len by (auto simp: min_def)
  next
    case False
    with 2 show ?thesis by auto
  qed
qed

lemma findAllHex_hex:
  "m \<in> set (findAllHex n prev s) \<Longrightarrow> list_all isHexChar m"
proof (induction n prev s rule: findAllHex.induct)
  case (1 n prev)
  then show ?case by simp
next
  case (2 n prev c cs)
  show ?case
  proof (cases "matchHexAt n prev (c # cs)")
    case True
    then have hex: "list_all isHexChar (take n (c # cs))" by (simp add: matchHexAt_def)
    from 2 True show ?thesis using hex by auto
  next
    case False
    with 2 show ?thesis by auto
  qed
qed

lemma isHexChar_ASCII: "isHexChar c \<Longrightarrow> isASCIIChar c"
  by (auto simp: isHexChar_def isASCIIChar_def Let_def)

text \<open>On a match of a hash recogniser \<open>strings.ToLower\<close> takes its ASCII branch.\<close>

lemma strings_ToLower_hex:
  "list_all isHexChar h \<Longrightarrow> strings_ToLower gl h = map toLowerChar h"
  by (auto simp: strings_ToLower_def list_all_iff dest: isHexChar_ASCII)

lemma set_deduplicate_loop: "set (deduplicate_loop seen xs) = set xs - set seen"
  by (induction seen xs rule: deduplicate_loop.induct) auto

lemma set_deduplicate [simp]: "set (deduplicate xs) = set xs"
  by (simp add: deduplicate_def set_deduplicate_loop)

lemma remdups_snoc: "remdups (ys @ [x]) = remdups (filter (\<lambda>y. y \<noteq> x) ys) @ [x]"
  by (induction ys) auto

lemma deduplicate_loop_remdups:
  "deduplicate_loop seen xs = rev (remdups (rev (filter (\<lambda>x. x \<notin> set seen) xs)))"
proof (induction seen xs rule: deduplicate_loop.induct)
  case (1 seen)
  then show ?case by simp
next
  case (2 seen item items)
  show ?case
  proof (cases "item \<in> set seen")
    case True
    with 2 show ?thesis by simp
  next
    case False
    have f: "filter (\<lambda>y. y \<noteq> item) (rev (filter (\<lambda>x. x \<notin> set seen) items)) =
             rev (filter (\<lambda>x. x \<notin> set (item # seen)) items)"
      by (simp add: rev_filter [symmetric] conj_commute)
    from False 2 show ?thesis by (simp add: remdups_snoc f)
  qed
qed

text \<open>\<open>deduplicate\<close> keeps of every string its first occurrence, in the order of the list.\<close>

lemma deduplicate_remdups: "deduplicate xs = rev (remdups (rev xs))"
  by (simp add: deduplicate_def deduplicate_loop_remdups)

lemma isFalsePositive_long:
  "32 < length lower \<Longrightarrow>
   isFalsePositive lower hashFalsePositivePatterns = Inl (SliceBoundsOutOfRange (length lower) 32)"
  by (simp add: hashFalsePositivePatterns_def slice_to_def)

lemma isFalsePositive_32:
  "length lower = 32 \<Longrightarrow>
   isFalsePositive lower hashFalsePositivePatterns = Inr (lower \<in> set hashFalsePositivePatterns)"
  by (auto simp: hashFalsePositivePatterns_def slice_to_def strings_HasPrefix_def)

lemma filterHashFalsePositives_32:
  "\<forall>h \<in> set hs. length h = 32 \<and> list_all isHexChar h \<Longrightarrow>
   filterHashFalsePositives gl hs =
     Inr (filter (\<lambda>h. map toLowerChar h \<notin> set hashFalsePositivePatterns) hs)"
  by (induction hs) (simp_all add: isFalsePositive_32 strings_ToLower_hex)

lemma filterHashFalsePositives_long:
  "hs \<noteq> [] \<Longrightarrow> \<forall>h \<in> set hs. length h = n \<and> list_all isHexChar h \<Longrightarrow> 32 < n \<Longrightarrow>
   filterHashFalsePositives gl hs = Inl (SliceBoundsOutOfRange n 32)"
  by (cases hs) (simp_all add: isFalsePositive_long strings_ToLower_hex)

text \<open>The MD5 path never panics: its matches are 32 bytes long, as the patterns are.\<close>

lemma extractMD5_total:
  "extractMD5 gl b = Inr (deduplicate (toLower gl
     (filter (\<lambda>h. map toLowerChar h \<notin> set hashFalsePositivePatterns) (md5Pattern_FindAllString b))))"
  unfolding extractMD5_def extractHash_def md5Pattern_FindAllString_def
  by (subst filterHashFalsePositives_32) (auto dest: findAllHex_length [rotated] findAllHex_hex)


text \<open>A match of the SHA1 or of the SHA256 recogniser makes \<open>Scan\<close> panic.\<close>

lemma extractSHA1_panics:
  assumes "sha1Pattern_FindAllString b \<noteq> []"
  shows "extractSHA1 gl b = Inl (SliceBoundsOutOfRange 40 32)"
proof -
  have "\<forall>h \<in> set (sha1Pattern_FindAllString b). length h = 40 \<and> list_all isHexChar h"
    by (auto simp: sha1Pattern_FindAllString_def dest: findAllHex_length [rotated] findAllHex_hex)
  with assms have "filterHashFalsePositives gl (sha1Pattern_FindAllString b) =
      Inl (SliceBoundsOutOfRange 40 32)"
    by (intro filterHashFalsePositives_long) simp_all
  then show ?thesis by (simp add: extractSHA1_def extractHash_def)
qed

lemma extractSHA256_panics:
  assumes "sha256Pattern_FindAllString b \<noteq> []"
  shows "extractSHA256 gl b = Inl (SliceBoundsOutOfRange 64 32)"
proof -
  have "\<forall>h \<in> set (sha256Pattern_FindAllString b). length h = 64 \<and> list_all isHexChar h"
    by (auto simp: sha256Pattern_FindAllString_def dest: findAllHex_length [rotated] findAllHex_hex)
  with assms have "filterHashFalsePositives gl (sha256Pattern_FindAllString b) =
      Inl (SliceBoundsOutOfRange 64 32)"
    by (intro filterHashFalsePositives_long) simp_all
  then show ?thesis by (simp add: extractSHA256_def extractHash_def)
qed

lemma extractSHA1_no_match:
  "sha1Pattern_FindAllString b = [] \<Longrightarrow> extractSHA1 gl b = Inr []"
  by (simp add: extractSHA1_def extractHash_def deduplicate_def toLower_def)

lemma Scan_sha1_panic:
  assumes "sha1Pattern_FindAllString b \<noteq> []"
  shows "Scan gl b = Inl (SliceBoundsOutOfRange 40 32)"
  unfolding Scan_def Let_def extractMD5_total extractSHA1_panics [OF assms] by simp

lemma Scan_sha256_panic:
  assumes "sha1Pattern_FindAllString b = []" and "sha256Pattern_FindAllString b \<noteq> []"
  shows "Scan gl b = Inl (SliceBoundsOutOfRange 64 32)"
  unfolding Scan_def Let_def extractMD5_total extractSHA1_no_match [OF assms(1)]
    extractSHA256_panics [OF assms(2)] by simp

text \<open>
  Claim C1 says that \<open>Scan\<close> returns for every buffer, also for one that holds a word-bounded
  token of 40 or of 64 hexadecimal characters. It does not: on such a token
  \<open>filterHashFalsePositives\<close> slices a 32-byte pattern at \<open>len(lower)\<close>, which is 40 or 64,
  and the run-time panics. The buffers here are one token of forty, and one of sixty-four,
  letters \<open>a\<close>; the panic does not depend on what the other recognisers find.
\<close>

theorem Scan_panics_on_long_hex_token:
  "Scan gl (replicate 40 (CHR ''a'')) = Inl (SliceBoundsOutOfRange 40 32) \<and>
   Scan gl (replicate 64 (CHR ''a'')) = Inl (SliceBoundsOutOfRange 64 32)"
proof -
  have s: "sha1Pattern_FindAllString (replicate 40 (CHR ''a'')) \<noteq> []" by code_simp
  have s': "sha1Pattern_FindAllString (replicate 64 (CHR ''a'')) = []" by code_simp
  have t': "sha256Pattern_FindAllString (replicate 64 (CHR ''a'')) \<noteq> []" by code_simp
  from Scan_sha1_panic [OF s] Scan_sha256_panic [OF s' t'] show ?thesis by simp
qed

lemma strings_TrimRight_split:
  "\<exists>t. s = strings_TrimRight s cutset @ t \<and> set t \<subseteq> set cutset"
proof -
  let ?P = "\<lambda>c. c \<in> set cutset"
  have "rev s = takeWhile ?P (rev s) @ dropWhile ?P (rev s)" by simp
  then have "s = rev (dropWhile ?P (rev s)) @ rev (takeWhile ?P (rev s))"
    by (metis rev_append rev_rev_ident)
  moreover have "set (rev (takeWhile ?P (rev s))) \<subseteq> set cutset"
    by (auto dest: set_takeWhileD)
  ultimately show ?thesis unfolding strings_TrimRight_def by blast
qed

lemma strings_TrimRight_last:
  "strings_TrimRight s cutset = [] \<or> last (strings_TrimRight s cutset) \<notin> set cutset"
proof (cases "dropWhile (\<lambda>c. c \<in> set cutset) (rev s)")
  case Nil
  then show ?thesis by (simp add: strings_TrimRight_def)
next
  case (Cons y ys)
  then have "\<not> y \<in> set cutset" using hd_dropWhile [of "\<lambda>c. c \<in> set cutset" "rev s"] by simp
  with Cons show ?thesis by (simp add: strings_TrimRight_def)
qed

text \<open>
  The trimmed form is the only way to split a string into a part that does not end in a
  character of the cutset and a rest made of such characters.
\<close>

lemma strings_TrimRight_unique:
  assumes "m = u @ t" and "set t \<subseteq> set cutset" and "u = [] \<or> last u \<notin> set cutset"
  shows "strings_TrimRight m cutset = u"
proof -
  let ?P = "\<lambda>c. c \<in> set cutset"
  have t: "\<forall>c \<in> set (rev t). ?P c" using assms(2) by auto
  have "dropWhile ?P (rev u) = rev u"
  proof (cases u rule: rev_cases)
    case Nil
    then show ?thesis by simp
  next
    case (snoc ys y)
    with assms(3) show ?thesis by simp
  qed
  then have "dropWhile ?P (rev t @ rev u) = rev u"
    using t by (simp add: dropWhile_append)
  with assms(1) show ?thesis by (simp add: strings_TrimRight_def)
qed

text \<open>
  Claim C5 says that at most one trailing character of \<open>.,;:!?)\<close> is removed from a URL
  match, so that \<open>http://x.com).\<close> becomes \<open>http://x.com)\<close>. The recogniser matches the whole
  of \<open>http://x.com).\<close>, and \<open>strings.TrimRight\<close> then takes both trailing characters away.
\<close>

theorem extractURLs_trim_once_counterexample:
  "urlPattern_FindAllString ''http://x.com).'' = [''http://x.com).''] \<and>
   extractURLs ''http://x.com).'' = [''http://x.com''] \<and>
   extractURLs ''http://x.com).'' \<noteq> [''http://x.com)'']"
  by code_simp

text \<open>
  Claim C5 as amended: from every URL match the whole trailing run of characters of
  \<open>.,;:!?)\<close> is removed, and the trimmed matches are then deduplicated. There is a list
  \<open>us\<close> with one entry for every match of the recogniser, in the order of the matches; the
  entry \<open>u\<close> of a match \<open>m\<close> is \<open>m\<close> without a suffix \<open>t\<close> made of characters of the set, and
  \<open>u\<close> itself does not end in one; the result is \<open>us\<close> with only the first occurrence of
  every entry kept (\<open>remdups\<close> keeps the last occurrences, hence the two reversals). In
  particular \<open>http://x.com).\<close> becomes \<open>http://x.com\<close>.
\<close>

theorem extractURLs_trims_whole_run:
  "extractURLs ''http://x.com).'' = [''http://x.com''] \<and>
   (\<exists>us. list_all2
            (\<lambda>m u. \<exists>t. m = u @ t \<and> set t \<subseteq> set urlCutset \<and> (u = [] \<or> last u \<notin> set urlCutset))
            (urlPattern_FindAllString content) us \<and>
         extractURLs content = rev (remdups (rev us)))"
proof
  show "extractURLs ''http://x.com).'' = [''http://x.com'']" by code_simp
next
  let ?us = "map (\<lambda>m. strings_TrimRight m urlCutset) (urlPattern_FindAllString content)"
  have "list_all2
          (\<lambda>m u. \<exists>t. m = u @ t \<and> set t \<subseteq> set urlCutset \<and> (u = [] \<or> last u \<notin> set urlCutset))
          (urlPattern_FindAllString content) ?us"
    unfolding list_all2_map2
    by (rule list.rel_refl) (use strings_TrimRight_split strings_TrimRight_last in blast)
  moreover have "extractURLs content = rev (remdups (rev ?us))"
    by (simp add: extractURLs_def deduplicate_remdups)
  ultimately show "\<exists>us. list_all2
            (\<lambda>m u. \<exists>t. m = u @ t \<and> set t \<subseteq> set urlCutset \<and> (u = [] \<or> last u \<notin> set urlCutset))
            (urlPattern_FindAllString content) us \<and>
         extractURLs content = rev (remdups (rev us))"
    by blast
qed

theorem extractURLs_trims_whole_run_witness:
  "urlPattern_FindAllString ''http://x.com). http://x.com, http://y.org'' =
     [''http://x.com).'', ''http://x.com,'', ''http://y.org''] \<and>
   extractURLs ''http://x.com). http://x.com, http://y.org'' = [''http://x.com'', ''http://y.org''] \<and>
   (\<exists>us. list_all2
            (\<lambda>m u. \<exists>t. m = u @ t \<and> set t \<subseteq> set urlCutset \<and> (u = [] \<or> last u \<notin> set urlCutset))
            [''http://x.com).'', ''http://x.com,'', ''http://y.org''] us \<and>
         [''http://x.com'', ''http://y.org''] = rev (remdups (rev us)))"
proof -
  have m: "urlPattern_FindAllString ''http://x.com). http://x.com, http://y.org'' =
     [''http://x.com).'', ''http://x.com,'', ''http://y.org'']" by code_simp
  have e: "extractURLs ''http://x.com). http://x.com, http://y.org'' = [''http://x.com'', ''http://y.org'']"
    by code_simp
  from extractURLs_trims_whole_run [of "''http://x.com). http://x.com, http://y.org''"]
  show ?thesis unfolding m e using m e by blast
qed



section \<open>Properties of the lookup pipeline\<close>

lemma potentialHitsFrom_ok:
  "i + length iocs \<le> length bs \<Longrightarrow> \<exists>hits. potentialHitsFrom i iocs bs = Inr hits"
proof (induction iocs arbitrary: i)
  case Nil
  then show ?case by simp
next
  case (Cons x xs)
  then have "Suc i + length xs \<le> length bs" by simp
  from Cons.IH [OF this] obtain hits where "potentialHitsFrom (Suc i) xs bs = Inr hits" by blast
  moreover have "i < length bs" using Cons.prems by simp
  ultimately show ?case by (simp add: index_at_def)
qed

lemma r_IOC_resultFor [simp]: "r_IOC (resultFor s m ioc) = ioc"
  by (simp add: resultFor_def split: option.splits)

lemma buildResults_shape:
  "map r_IOC (fst (buildResults s m iocs)) = iocs \<and>
   snd (buildResults s m iocs) = int (length (filter r_Found (fst (buildResults s m iocs))))"
  by (induction iocs) (auto simp: Let_def split: prod.splits)

text \<open>Whatever the rows before it, the last row of the answer is the one the map keeps.\<close>

lemma buildFoundMap_last: "buildFoundMap (rows @ [r]) (Value r) = Some r"
  by (simp add: buildFoundMap_def)

text \<open>
  Claim C2 says that for a value with several rows in the index the enrichment comes from
  the row with the greatest \<open>last_seen\<close>. The query returns the rows with the greatest
  \<open>last_seen\<close> first, and the loop that fills \<open>foundMap\<close> lets every later row replace the
  earlier one: the row that stays is the last of the answer, the one with the least
  \<open>last_seen\<close>. For \<open>8.8.8.8\<close>, seen in \<open>f-old\<close> at 100 and in \<open>f-new\<close> at 200, the handler
  answers with \<open>f-old\<close>.
\<close>

theorem checkHandler_keeps_oldest_row:
  "QueryIOCs demoServer [''8.8.8.8''] =
     Inr [demoRow ''8.8.8.8'' ''f-new'' 200, demoRow ''8.8.8.8'' ''f-old'' 100] \<and>
   buildFoundMap [demoRow ''8.8.8.8'' ''f-new'' 200, demoRow ''8.8.8.8'' ''f-old'' 100] ''8.8.8.8'' =
     Some (demoRow ''8.8.8.8'' ''f-old'' 100) \<and>
   checkHandler demoServer (Some [''8.8.8.8'']) =
     Inr (\<lparr> status = 200, headers = [],
            body = JSONCheck \<lparr> Results =
              [\<lparr> r_IOC = ''8.8.8.8'', r_Found = True, r_Type = Some IOCTypeIPv4,
                 r_SourceFileID = ''f-old'', r_MalwareFamily = ''Unknown'', r_Confidence = 50,
                 r_FirstSeen = ''100'' \<rparr>],
              Total = 1, Found = 1, NotFound = 0 \<rparr> \<rparr>,
          [Call_BFMExists [''8.8.8.8''], Call_QueryIOCs [''8.8.8.8'']])"
  by code_simp




text \<open>
  Claim C8: for a request with between 1 and 1000 values, and a Bloom filter client that
  answers (when it answers) with one verdict per value, the handler returns 200; the results
  are as many as the values, the \<open>i\<close>-th result names the \<open>i\<close>-th value, \<open>total\<close> is their
  number, \<open>found\<close> counts the results marked found, and \<open>found + not_found = total\<close>.
\<close>

theorem checkHandler_positional:
  assumes "iocs \<noteq> []" and "length iocs \<le> 1000"
    and "\<forall>bs. redis_client_BFMExists s iocs = Inr bs \<longrightarrow> length bs = length iocs"
  shows "\<exists>resp calls.
           checkHandler s (Some iocs) = Inr (\<lparr> status = 200, headers = [], body = JSONCheck resp \<rparr>, calls) \<and>
           length (Results resp) = length iocs \<and>
           (\<forall>i < length iocs. r_IOC (Results resp ! i) = iocs ! i) \<and>
           Total resp = int (length iocs) \<and>
           Found resp = int (length (filter r_Found (Results resp))) \<and>
           Found resp + NotFound resp = Total resp"
proof -
  let ?bloom = "case BFMExists s iocs of Inl e \<Rightarrow> replicate (length iocs) True | Inr bs \<Rightarrow> bs"
  have len: "length ?bloom = length iocs"
    using assms(1,3) by (auto simp: BFMExists_def split: sum.splits)
  then obtain hits where hits: "potentialHitsFrom 0 iocs ?bloom = Inr hits"
    using potentialHitsFrom_ok [of 0 iocs ?bloom] by auto
  let ?found = "if length hits > 0
                then (case QueryIOCs s hits of Inl e \<Rightarrow> [] | Inr rows \<Rightarrow> rows) else []"
  obtain results foundCount where br: "buildResults s (buildFoundMap ?found) iocs = (results, foundCount)"
    by (cases "buildResults s (buildFoundMap ?found) iocs")
  from buildResults_shape [of s "buildFoundMap ?found" iocs] br
  have shape: "map r_IOC results = iocs" "foundCount = int (length (filter r_Found results))"
    by simp_all
  have lenr: "length results = length iocs" using shape(1) by (metis length_map)
  have nth: "\<forall>i < length iocs. r_IOC (results ! i) = iocs ! i"
    using shape(1) lenr by (metis nth_map)
  have "checkHandler s (Some iocs) =
          Inr (\<lparr> status = 200, headers = [],
                 body = JSONCheck \<lparr> Results = results, Total = int (length iocs),
                          Found = foundCount, NotFound = int (length iocs) - foundCount \<rparr> \<rparr>,
               Call_BFMExists iocs # (if length hits > 0 then [Call_QueryIOCs hits] else []))"
    using assms(1,2) unfolding checkHandler_def Let_def
    by (simp only: hits br option.case sum.case prod.case length_0_conv if_False
          linorder_not_less [symmetric] simp_thms)
  with lenr nth shape(2) show ?thesis by simp
qed

theorem checkHandler_positional_witness:
  "[''x'', ''8.8.8.8'', ''x''] \<noteq> [] \<and> length [''x'', ''8.8.8.8'', ''x''] \<le> 1000 \<and>
   redis_client_BFMExists demoServer [''x'', ''8.8.8.8'', ''x''] = Inr [False, True, False] \<and>
   (\<exists>resp calls.
       checkHandler demoServer (Some [''x'', ''8.8.8.8'', ''x'']) =
         Inr (\<lparr> status = 200, headers = [], body = JSONCheck resp \<rparr>, calls) \<and>
       length (Results resp) = length [''x'', ''8.8.8.8'', ''x''] \<and>
       (\<forall>i < length [''x'', ''8.8.8.8'', ''x'']. r_IOC (Results resp ! i) = [''x'', ''8.8.8.8'', ''x''] ! i) \<and>
       Total resp = int (length [''x'', ''8.8.8.8'', ''x'']) \<and>
       Found resp = int (length (filter r_Found (Results resp))) \<and>
       Found resp + NotFound resp = Total resp)"
proof -
  have h1: "[''x'', ''8.8.8.8'', ''x''] \<noteq> []" by simp
  have h2: "length [''x'', ''8.8.8.8'', ''x''] \<le> 1000" by simp
  have e: "redis_client_BFMExists demoServer [''x'', ''8.8.8.8'', ''x''] = Inr [False, True, False]"
    by (simp add: demoServer_def)
  have h3: "\<forall>bs. redis_client_BFMExists demoServer [''x'', ''8.8.8.8'', ''x''] = Inr bs \<longrightarrow>
          length bs = length [''x'', ''8.8.8.8'', ''x'']"
    using e by simp
  from checkHandler_positional [OF h1 h2 h3] h1 h2 e show ?thesis by blast
qed

text \<open>
  Claim C9: an empty \<open>iocs\<close> array is answered 400, more than 1000 values are answered 400
  with the error \<open>Too many IOCs\<close>, and in both cases the handler makes no call to the Bloom
  filter or to the index (its list of store calls is empty).
\<close>

theorem checkHandler_rejects_empty_and_oversize:
  "checkHandler s (Some []) =
     Inr (\<lparr> status = 400, headers = [],
            body = JSONError \<lparr> Error = ''No IOCs provided'', Code = 400, Details = [] \<rparr> \<rparr>, []) \<and>
   (1000 < length iocs \<longrightarrow>
    checkHandler s (Some iocs) =
      Inr (\<lparr> status = 400, headers = [],
             body = JSONError \<lparr> Error = ''Too many IOCs'', Code = 400,
                      Details = ''Maximum 1000 IOCs per request'' \<rparr> \<rparr>, []))"
  by (auto simp: checkHandler_def jsonError_def)

theorem checkHandler_rejects_empty_and_oversize_witness:
  "1000 < length (replicate 1001 ''8.8.8.8'') \<and>
   checkHandler demoServer (Some (replicate 1001 ''8.8.8.8'')) =
      Inr (\<lparr> status = 400, headers = [],
             body = JSONError \<lparr> Error = ''Too many IOCs'', Code = 400,
                      Details = ''Maximum 1000 IOCs per request'' \<rparr> \<rparr>, [])"
proof -
  have h: "1000 < length (replicate 1001 ''8.8.8.8'')" by simp
  from checkHandler_rejects_empty_and_oversize [of demoServer "replicate 1001 ''8.8.8.8''"] h show ?thesis by blast
qed

section \<open>Properties of the authentication middleware\<close>

text \<open>
  Claim C10: when the configured API key is empty, the middleware answers 401 exactly for a
  request outside the skipped paths that presents no key; a request with a non-empty
  \<open>X-API-Key\<close> header, or with a non-empty Bearer token, is never answered 401. The key is
  empty when \<open>API_KEY\<close> is not set, its default.
\<close>

theorem empty_api_key_accepts_any_key:
  assumes "APIKey cfg = []"
  shows "is401 (NewAuthMiddleware h cfg r) = (\<not> skipsAuth cfg r \<and> presentedKey r = []) \<and>
         (req_X_API_Key r \<noteq> [] \<longrightarrow> \<not> is401 (NewAuthMiddleware h cfg r)) \<and>
         (\<forall>tok. tok \<noteq> [] \<and> req_Authorization r = ''Bearer '' @ tok \<longrightarrow>
                \<not> is401 (NewAuthMiddleware h cfg r)) \<and>
         (environ ''API_KEY'' = [] \<longrightarrow> APIKey (routesAuthConfig (Load_APIKey environ) redis) = [])"
proof -
  have main: "is401 (NewAuthMiddleware h cfg r) = (\<not> skipsAuth cfg r \<and> presentedKey r = [])"
    using assms
    by (auto simp: NewAuthMiddleware_def is401_def Let_def jsonError_def IncrementRateLimit_def
             split: option.splits sum.splits prod.splits)
  have x: "req_X_API_Key r \<noteq> [] \<Longrightarrow> presentedKey r \<noteq> []"
    by (simp add: presentedKey_def)
  have b: "\<And>tok. tok \<noteq> [] \<Longrightarrow> req_Authorization r = ''Bearer '' @ tok \<Longrightarrow> presentedKey r \<noteq> []"
    by (simp add: presentedKey_def strings_HasPrefix_def)
  have e: "environ ''API_KEY'' = [] \<Longrightarrow> APIKey (routesAuthConfig (Load_APIKey environ) redis) = []"
    by (simp add: routesAuthConfig_def Load_APIKey_def getEnv_def)
  from main x b e show ?thesis by blast
qed

theorem empty_api_key_accepts_any_key_witness:
  "APIKey demoAuthConfig = [] \<and>
   \<not> is401 (NewAuthMiddleware demoHash demoAuthConfig keyedRequest) \<and>
   \<not> is401 (NewAuthMiddleware demoHash demoAuthConfig bearerRequest) \<and>
   is401 (NewAuthMiddleware demoHash demoAuthConfig bareRequest)"
proof -
  have k: "APIKey demoAuthConfig = []"
    by (simp add: demoAuthConfig_def routesAuthConfig_def Load_APIKey_def getEnv_def)
  have x: "req_X_API_Key keyedRequest \<noteq> []" by (simp add: keyedRequest_def)
  have t: "''t0ken'' \<noteq> [] \<and> req_Authorization bearerRequest = ''Bearer '' @ ''t0ken''"
    by (simp add: bearerRequest_def)
  have n: "\<not> skipsAuth demoAuthConfig bareRequest \<and> presentedKey bareRequest = []"
    by code_simp
  from empty_api_key_accepts_any_key [OF k, of demoHash keyedRequest] x
  have a: "\<not> is401 (NewAuthMiddleware demoHash demoAuthConfig keyedRequest)" by blast
  from empty_api_key_accepts_any_key [OF k, of demoHash bearerRequest] t
  have b: "\<not> is401 (NewAuthMiddleware demoHash demoAuthConfig bearerRequest)" by blast
  from empty_api_key_accepts_any_key [OF k, of demoHash bareRequest] n
  have c: "is401 (NewAuthMiddleware demoHash demoAuthConfig bareRequest)" by blast
  from k a b c show ?thesis by blast
qed

section \<open>Properties of the ingestion pipeline\<close>

lemma sum_fst_value:
  "map_sum id fst r = Inr v \<Longrightarrow> \<not> isl r \<and> fst (projr r) = v"
  by (cases r) auto

text \<open>
  Whatever fails, a record that \<open>processFile\<close> writes to the registry is \<open>infected\<close> or
  \<open>misc\<close> and has no error message.
\<close>

lemma processFile_never_writes_failed:
  assumes "processFile i w job = Inr (w', res)"
  shows "file_registry w' = file_registry w \<or>
         (\<exists>m. file_registry w' = m # file_registry w \<and>
              (ScanStatus m = ScanStatusInfected \<or> ScanStatus m = ScanStatusMisc) \<and>
              ErrorMessage m = [])"
proof (cases "CheckFileChanged i w (GenerateFileID i (job_FilePath job)) (job_LastModified job)")
  case False
  with assms show ?thesis by (auto simp: processFile_def Let_def)
next
  case True
  show ?thesis
  proof (cases "os_ReadFile i (job_FilePath job)")
    case (Inl e)
    with True assms show ?thesis by (auto simp: processFile_def Let_def)
  next
    case (Inr content)
    with True assms obtain iocs where s: "Scan (lib i) content = Inr iocs"
      by (cases "Scan (lib i) content") (simp_all add: processFile_def Let_def)
    let ?st = "if 0 < CountIOCs iocs then ScanStatusInfected else ScanStatusMisc"
    let ?meta = "\<lparr> FileID = GenerateFileID i (job_FilePath job), FilePath = job_FilePath job,
       FileSize = word_of_int (job_FileSize job), LastModified = job_LastModified job,
       ScanStatus = ?st, IOCCount = word_of_int (CountIOCs iocs),
       MinIOKey = (if ?st = ScanStatusMisc then GenerateFileID i (job_FilePath job) else []),
       ErrorMessage = [], ProcessedAt = time_Now i, UpdatedAt = 0 \<rparr>"
    from assms True Inr s
    have "file_registry w' = UpsertFileMetadata i ?meta (file_registry w)"
      by (auto simp: processFile_def Let_def mkResult_def)
    then show ?thesis by (auto simp: UpsertFileMetadata_def)
  qed
qed

text \<open>The stores after the run of \<open>faultyIngestor\<close> over the two files.\<close>

lemma faulty_run_value:
  "map_sum id fst (worker faultyIngestor emptyWorld [jobA, jobB]) =
     Inr \<lparr> file_registry =
        [\<lparr> FileID = ''sha256:/data/b.bin'', FilePath = ''/data/b.bin'', FileSize = 18,
           LastModified = 51000000000, ScanStatus = ScanStatusMisc, IOCCount = 0,
           MinIOKey = ''sha256:/data/b.bin'', ErrorMessage = [],
           ProcessedAt = 100000000000, UpdatedAt = 100000000000 \<rparr>,
         \<lparr> FileID = ''sha256:/data/a.log'', FilePath = ''/data/a.log'', FileSize = 37,
           LastModified = 50000000000, ScanStatus = ScanStatusInfected, IOCCount = 1,
           MinIOKey = [], ErrorMessage = [],
           ProcessedAt = 100000000000, UpdatedAt = 100000000000 \<rparr>],
       ioc_store = [], bloom = [''d41d8cd98f00b204e9800998ecf8427e''], objects = [],
       stats = \<lparr> FilesProcessed = 2, FilesSkipped = 0, FilesFailed = 0, IOCsExtracted = 1,
         BytesProcessed = 55 \<rparr> \<rparr>"
  by code_simp

text \<open>
  Claim C3 says that a file whose batch insert or whose upload fails is written to the
  registry as \<open>failed\<close> with an error message. The worker only logs these two failures: with
  every insert and every upload failing, \<open>/data/a.log\<close> (one hash) is registered as
  \<open>infected\<close> and \<open>/data/b.bin\<close> (no indicator) as \<open>misc\<close>, both with an empty error message,
  while the index and the bucket stay empty. (The worker does go on to the second file.)
\<close>

theorem store_failure_record_not_failed:
  "fault faultyIngestor (Op_BatchInsertIOCs ''sha256:/data/a.log'') = Some (GoError ''failed to send batch'') \<and>
   fault faultyIngestor (Op_UploadBytes ''sha256:/data/b.bin'') = Some (GoError ''failed to upload bytes'') \<and>
   \<not> isl (worker faultyIngestor emptyWorld [jobA, jobB]) \<and>
   map FileID (file_registry (fst (projr (worker faultyIngestor emptyWorld [jobA, jobB]))))
     = [''sha256:/data/b.bin'', ''sha256:/data/a.log''] \<and>
   map ScanStatus (file_registry (fst (projr (worker faultyIngestor emptyWorld [jobA, jobB]))))
     = [ScanStatusMisc, ScanStatusInfected] \<and>
   map ErrorMessage (file_registry (fst (projr (worker faultyIngestor emptyWorld [jobA, jobB]))))
     = [[], []] \<and>
   ioc_store (fst (projr (worker faultyIngestor emptyWorld [jobA, jobB]))) = [] \<and>
   objects (fst (projr (worker faultyIngestor emptyWorld [jobA, jobB]))) = []"
proof -
  have f: "fault faultyIngestor (Op_BatchInsertIOCs ''sha256:/data/a.log'') = Some (GoError ''failed to send batch'')"
    "fault faultyIngestor (Op_UploadBytes ''sha256:/data/b.bin'') = Some (GoError ''failed to upload bytes'')"
    by (simp_all add: faultyIngestor_def)
  note v = sum_fst_value [OF faulty_run_value]
  from v have r: "\<not> isl (worker faultyIngestor emptyWorld [jobA, jobB])" by blast
  from v f r show ?thesis by simp
qed


lemma storedLastModified_stats [simp]:
  "storedLastModified i (w\<lparr> stats := st \<rparr>) fileID = storedLastModified i w fileID"
  by (simp add: storedLastModified_def split: option.splits)

lemma processFile_unchanged:
  assumes "storedLastModified i w (GenerateFileID i (job_FilePath job)) = Some (job_LastModified job)"
  shows "processFile i w job =
           Inr (w\<lparr> stats := (stats w)\<lparr> FilesSkipped := FilesSkipped (stats w) + 1 \<rparr> \<rparr>,
                mkResult (GenerateFileID i (job_FilePath job)) (job_FilePath job)
                  ScanStatusClean 0 Map.empty None)"
  using assms by (simp add: processFile_def Let_def CheckFileChanged_def)

lemma worker_unchanged:
  assumes "\<forall>job \<in> set jobs.
             storedLastModified i w (GenerateFileID i (job_FilePath job)) = Some (job_LastModified job)"
  shows "worker i w jobs =
           Inr (w\<lparr> stats := (stats w)\<lparr> FilesSkipped := FilesSkipped (stats w) + int (length jobs) \<rparr> \<rparr>,
                map (\<lambda>job. mkResult (GenerateFileID i (job_FilePath job)) (job_FilePath job)
                             ScanStatusClean 0 Map.empty None) jobs)"
  using assms
proof (induction jobs arbitrary: w)
  case Nil
  then show ?case by simp
next
  case (Cons job jobs)
  let ?w1 = "w\<lparr> stats := (stats w)\<lparr> FilesSkipped := FilesSkipped (stats w) + 1 \<rparr> \<rparr>"
  have p: "processFile i w job = Inr (?w1,
             mkResult (GenerateFileID i (job_FilePath job)) (job_FilePath job)
               ScanStatusClean 0 Map.empty None)"
    using Cons.prems by (intro processFile_unchanged) simp
  have "\<forall>job \<in> set jobs.
          storedLastModified i ?w1 (GenerateFileID i (job_FilePath job)) = Some (job_LastModified job)"
    using Cons.prems by simp
  from Cons.IH [OF this] p show ?case by (simp add: algebra_simps)
qed

text \<open>
  Files for which the registry answers the very modification time of the job are skipped
  without any write: the registry (and with it every prior status), the index, the Bloom
  filter and the bucket are as before, and only \<open>FilesSkipped\<close> moves.
\<close>

lemma worker_skips_all:
  assumes "\<forall>job \<in> set jobs.
             storedLastModified i w (GenerateFileID i (job_FilePath job)) = Some (job_LastModified job)"
  shows "\<exists>w' results.
           worker i w jobs = Inr (w', results) \<and>
           length results = length jobs \<and>
           (\<forall>r \<in> set results. res_Status r = ScanStatusClean) \<and>
           file_registry w' = file_registry w \<and>
           ioc_store w' = ioc_store w \<and>
           bloom w' = bloom w \<and>
           objects w' = objects w \<and>
           FilesProcessed (stats w') = FilesProcessed (stats w) \<and>
           FilesSkipped (stats w') = FilesSkipped (stats w) + int (length jobs)"
  using worker_unchanged [OF assms] by (auto simp: mkResult_def)

text \<open>
  What a \<open>DateTime\<close> column gives back differs from the time written exactly when that time
  has a fraction of a second.
\<close>

lemma DateTime_fraction: "DateTime t \<noteq> t \<longleftrightarrow> t mod 1000000000 \<noteq> 0"
  unfolding DateTime_def by (metis add.right_neutral mult.commute mult_div_mod_eq add_left_cancel)

text \<open>The stores after the first run of \<open>demoIngestor\<close> over the two files.\<close>

lemma first_run_value:
  "map_sum id fst (worker demoIngestor emptyWorld [jobA, jobB]) =
     Inr \<lparr> file_registry =
        [\<lparr> FileID = ''sha256:/data/b.bin'', FilePath = ''/data/b.bin'', FileSize = 18,
           LastModified = 51000000000, ScanStatus = ScanStatusMisc, IOCCount = 0,
           MinIOKey = ''sha256:/data/b.bin'', ErrorMessage = [],
           ProcessedAt = 100000000000, UpdatedAt = 100000000000 \<rparr>,
         \<lparr> FileID = ''sha256:/data/a.log'', FilePath = ''/data/a.log'', FileSize = 37,
           LastModified = 50000000000, ScanStatus = ScanStatusInfected, IOCCount = 1,
           MinIOKey = [], ErrorMessage = [],
           ProcessedAt = 100000000000, UpdatedAt = 100000000000 \<rparr>],
       ioc_store =
        [\<lparr> Value = ''d41d8cd98f00b204e9800998ecf8427e'', Type = IOCTypeMD5,
           SourceFileID = ''sha256:/data/a.log'', MalwareFamily = ''Unknown'', Confidence = 50,
           FirstSeen = 100000000000, LastSeen = 100000000000, HitCount = 0, VectorID = None,
           Tags = [] \<rparr>],
       bloom = [''d41d8cd98f00b204e9800998ecf8427e''],
       objects = [(''sha256:/data/b.bin'', ''no indicators here'', ''application/octet-stream'')],
       stats = \<lparr> FilesProcessed = 2, FilesSkipped = 0, FilesFailed = 0, IOCsExtracted = 1,
         BytesProcessed = 55 \<rparr> \<rparr>"
  by code_simp

lemma afterFirstRun_value:
  "afterFirstRun =
     \<lparr> file_registry =
        [\<lparr> FileID = ''sha256:/data/b.bin'', FilePath = ''/data/b.bin'', FileSize = 18,
           LastModified = 51000000000, ScanStatus = ScanStatusMisc, IOCCount = 0,
           MinIOKey = ''sha256:/data/b.bin'', ErrorMessage = [],
           ProcessedAt = 100000000000, UpdatedAt = 100000000000 \<rparr>,
         \<lparr> FileID = ''sha256:/data/a.log'', FilePath = ''/data/a.log'', FileSize = 37,
           LastModified = 50000000000, ScanStatus = ScanStatusInfected, IOCCount = 1,
           MinIOKey = [], ErrorMessage = [],
           ProcessedAt = 100000000000, UpdatedAt = 100000000000 \<rparr>],
       ioc_store =
        [\<lparr> Value = ''d41d8cd98f00b204e9800998ecf8427e'', Type = IOCTypeMD5,
           SourceFileID = ''sha256:/data/a.log'', MalwareFamily = ''Unknown'', Confidence = 50,
           FirstSeen = 100000000000, LastSeen = 100000000000, HitCount = 0, VectorID = None,
           Tags = [] \<rparr>],
       bloom = [''d41d8cd98f00b204e9800998ecf8427e''],
       objects = [(''sha256:/data/b.bin'', ''no indicators here'', ''application/octet-stream'')],
       stats = zeroStats \<rparr>"
proof (cases "worker demoIngestor emptyWorld [jobA, jobB]")
  case (Inl p)
  with first_run_value show ?thesis by simp
next
  case (Inr r)
  with first_run_value show ?thesis by (cases r) (simp add: afterFirstRun_def)
qed

text \<open>The stores and counters after the second run.\<close>

lemma second_run_value:
  "map_sum id (\<lambda>(w, results). (length (file_registry w), length (ioc_store w), stats w))
     (worker demoIngestor afterFirstRun [jobA, jobB]) =
     Inr (3, 2, \<lparr> FilesProcessed = 1, FilesSkipped = 1, FilesFailed = 0, IOCsExtracted = 1,
                  BytesProcessed = 37 \<rparr>)"
  unfolding afterFirstRun_value by code_simp

text \<open>
  Claim C7 says that a file whose stored \<open>last_modified\<close> equals the observed one is skipped
  before any write, and that therefore a second run over an unchanged tree processes 0 files
  and inserts no index rows. The skip is as the claim says, but the second run is not: the
  registry keeps the whole second of a modification time, and the worker compares it with
  the full time of the file. \<open>/data/a.log\<close> was modified at second 50 and a half; after a
  first run over the two files, with every store working, the registry answers second 50
  for it, the second run over the same two jobs takes it for changed, processes it again
  and inserts its index row a second time. Only \<open>/data/b.bin\<close>, modified at a whole
  second, is skipped.
\<close>

theorem second_run_reprocesses_unchanged_file:
  "\<not> isl (worker demoIngestor emptyWorld [jobA, jobB]) \<and>
   job_LastModified jobA = seconds 50 + 500000000 \<and>
   storedLastModified demoIngestor afterFirstRun (GenerateFileID demoIngestor (job_FilePath jobA))
     = Some (seconds 50) \<and>
   CheckFileChanged demoIngestor afterFirstRun
     (GenerateFileID demoIngestor (job_FilePath jobA)) (job_LastModified jobA) \<and>
   \<not> isl (worker demoIngestor afterFirstRun [jobA, jobB]) \<and>
   FilesProcessed (stats (fst (projr (worker demoIngestor afterFirstRun [jobA, jobB])))) = 1 \<and>
   FilesSkipped (stats (fst (projr (worker demoIngestor afterFirstRun [jobA, jobB])))) = 1 \<and>
   length (ioc_store afterFirstRun) = 1 \<and>
   length (ioc_store (fst (projr (worker demoIngestor afterFirstRun [jobA, jobB])))) = 2 \<and>
   length (file_registry afterFirstRun) = 2 \<and>
   length (file_registry (fst (projr (worker demoIngestor afterFirstRun [jobA, jobB])))) = 3"
proof -
  have a: "\<not> isl (worker demoIngestor emptyWorld [jobA, jobB])"
    using sum_fst_value [OF first_run_value] by blast
  have b: "job_LastModified jobA = seconds 50 + 500000000" by (simp add: jobA_def)
  have c: "storedLastModified demoIngestor afterFirstRun
             (GenerateFileID demoIngestor (job_FilePath jobA)) = Some (seconds 50)"
    unfolding afterFirstRun_value by code_simp
  have d: "CheckFileChanged demoIngestor afterFirstRun
     (GenerateFileID demoIngestor (job_FilePath jobA)) (job_LastModified jobA)"
    unfolding CheckFileChanged_def c b by (simp add: seconds_def)
  have e: "\<not> isl (worker demoIngestor afterFirstRun [jobA, jobB]) \<and>
    length (file_registry (fst (projr (worker demoIngestor afterFirstRun [jobA, jobB])))) = 3 \<and>
    length (ioc_store (fst (projr (worker demoIngestor afterFirstRun [jobA, jobB])))) = 2 \<and>
    stats (fst (projr (worker demoIngestor afterFirstRun [jobA, jobB]))) =
      \<lparr> FilesProcessed = 1, FilesSkipped = 1, FilesFailed = 0, IOCsExtracted = 1,
        BytesProcessed = 37 \<rparr>"
    using second_run_value
    by (cases "worker demoIngestor afterFirstRun [jobA, jobB]") (auto split: prod.splits)
  have f: "length (ioc_store afterFirstRun) = 1" "length (file_registry afterFirstRun) = 2"
    by (simp_all add: afterFirstRun_value)
  from a b c d e f show ?thesis by simp
qed


end
